theory Spec2Isabelle
  imports Main "HOL-Library.Word"
begin

unbundle bit_operations_syntax

section \<open>The port plugin of the session manager (agent/session/plugins/port/port.go)\<close>

text \<open>
  The plugin bridges a session data channel and a TCP connection to a port of the local
  host. Three activities touch the plugin: \<open>Execute\<close> (the lifecycle), the goroutine
  running \<open>writePump\<close>, and the host's calls of \<open>InputStreamMessageHandler\<close>. The
  embedding keeps one definition per source function. A function that blocks on a channel
  is cut at the blocking point into the part before and the part after; the parts are the
  atomic actions of a step function over the whole session, so that interleavings of the
  three activities are sequences of actions. Results of the collaborators that the source
  cannot determine (the decoded configuration, the outcome of a dial, of a read, of a write
  on an open connection, of a send on the data channel) are arguments of the functions.
\<close>

subsection \<open>Values of other packages\<close>

type_synonym conn = nat
type_synonym chan = nat
type_synonym byte = "8 word"

text \<open>
  Go errors. \<open>EOF\<close> is \<open>io.EOF\<close>, \<open>ErrClosed\<close> is what a \<open>net.Conn\<close> returns from
  \<open>Read\<close> and \<open>Write\<close> after \<open>Close\<close>, \<open>NetError\<close> is any other error of the
  network or of the decoder. The three last constructors are the errors port.go itself
  makes with \<open>errors.New(fmt.Sprintf(...))\<close>.
\<close>

datatype error =
    EOF
  | ErrClosed
  | NetError string
  | UnableToConnect error
  | UnableToRemarshal error
  | PortNumberEmpty

text \<open>
  Modelled from the spec: \<open>appconfig.SuccessExitCode\<close>, declared outside port.go. The
  spec gives exit code 0 to a successful session.
\<close>

definition SuccessExitCode :: int where
  "SuccessExitCode = 0"

text \<open>
  Modelled from the spec: \<open>appconfig.ErrorExitCode\<close>, declared outside port.go. The spec
  gives a failed session a nonzero exit code, and line 171 of port.go tests the pump's code
  against the literal 1.
\<close>

definition ErrorExitCode :: int where
  "ErrorExitCode = 1"

text \<open>
  Modelled from the spec: \<open>mgsConfig.ResumeReadExitCode\<close>, declared outside port.go: a
  resume signal distinct from the exit codes of success and of failure.
\<close>

definition ResumeReadExitCode :: int where
  "ResumeReadExitCode = 2"

text \<open>
  Modelled from the spec: \<open>mgsConfig.LocalPortForwarding\<close>, declared outside port.go: the
  one value of the type field that selects local port forwarding; the empty string and
  every other value select the other mode.
\<close>

definition LocalPortForwarding :: string where
  "LocalPortForwarding = ''LocalPortForwarding''"

text \<open>
  Modelled from the spec: the payload types \<open>mgsContracts.Output\<close> (the spec's Data) and
  \<open>mgsContracts.Flag\<close>, declared outside port.go: two distinct values of the 32-bit
  payload type field.
\<close>

definition Output :: "32 word" where
  "Output = 1"

definition Flag :: "32 word" where
  "Flag = 10"

text \<open>
  Modelled from the spec: \<open>mgsContracts.DisconnectToPort\<close>, declared outside port.go: a
  value of the fixed-width big-endian flag.
\<close>

definition DisconnectToPort :: "32 word" where
  "DisconnectToPort = 1"

text \<open>
  Modelled from the spec: the result statuses of \<open>agentContracts\<close> that the spec names.
\<close>

datatype ResultStatus = ResultStatusSuccess | ResultStatusFailed | ResultStatusCancelled

text \<open>The calls the plugin makes on the \<open>iohandler.IOHandler\<close> it is given.\<close>

datatype out_call =
    SetExitCode int
  | SetStatus ResultStatus
  | SetOutput error
  | MarkAsShutdown
  | MarkAsCancelled

text \<open>The calls the plugin makes on the network and on the data channel.\<close>

datatype net_call =
    DialCall string string
  | ConnClose conn
  | ConnRead conn
  | ConnWrite conn "byte list"
  | SendStreamDataMessage "32 word" "byte list"
  | PumpCrashed

text \<open>
  Modelled from the spec: what \<open>task.CancelFlag\<close> answers to \<open>ShutDown()\<close> and to
  \<open>Canceled()\<close> when \<open>Execute\<close> asks.
\<close>

record CancelFlag =
  ShutDown :: bool
  Canceled :: bool

text \<open>
  Modelled from the spec: the fields of \<open>mgsContracts.AgentMessage\<close> that the handler
  reads.
\<close>

record AgentMessage =
  PayloadType :: "32 word"
  SequenceNumber :: int
  Payload :: "byte list"

record PortParameters =
  PortNumber :: string
  Type :: string

text \<open>
  What \<open>jsonutil.Remarshal(parameters, &portParameters)\<close> does with the configuration
  blob: it fills the parameters, returns an error, or panics.
\<close>

datatype remarshal_result =
    Decoded PortParameters
  | DecodeFailed error
  | DecodePanic string

datatype read_result = ReadOk "byte list" | ReadErr error

datatype 'a outcome = Normal 'a | Panic string

subsection \<open>The plugin and the session around it\<close>

text \<open>
  \<open>PortPlugin\<close> as declared at lines 51-58. The channel \<open>reconnectToPortErr\<close> is
  unbuffered, so it never holds a value: a sender blocked on it is the handler's control
  point \<open>HSending\<close> below.
\<close>

record PortPlugin =
  tcpConn :: "conn option"
  dataChannel :: "chan option"
  portNumber :: string
  portType :: string
  reconnectToPort :: bool

text \<open>Where the goroutine of \<open>writePump\<close> stands.\<close>

datatype pump_pc =
    PNotStarted
  | PReading
  | PAwait
  | PFinished int

text \<open>
  Where a call of \<open>InputStreamMessageHandler\<close> stands: no call in flight, blocked in the
  send of line 204 with the value to send, or past that send.
\<close>

datatype handler_pc =
    HIdle
  | HSending "error option" AgentMessage
  | HSent "error option" AgentMessage

text \<open>Where \<open>Execute\<close> stands: not called, in the \<open>select\<close> of line 162, returned, or
  the process has exited.\<close>

datatype life_pc =
    LIdle
  | LRunning
  | LReturned
  | LExited int

record session =
  plugin :: PortPlugin
  closed :: "conn set"
  nextConn :: conn
  pump :: pump_pc
  handler :: handler_pc
  life :: life_pc
  out :: "out_call list"
  calls :: "net_call list"

text \<open>\<open>NewPlugin\<close> (lines 71-76): every field has Go's zero value.\<close>

definition NewPlugin :: PortPlugin where
  "NewPlugin = \<lparr>tcpConn = None, dataChannel = None, portNumber = [], portType = [],
     reconnectToPort = False\<rparr>"

definition init :: session where
  "init = \<lparr>plugin = NewPlugin, closed = {}, nextConn = 0, pump = PNotStarted,
     handler = HIdle, life = LIdle, out = [], calls = []\<rparr>"

subsection \<open>The connection\<close>

text \<open>
  \<open>net.Conn\<close>: after \<open>Close\<close>, \<open>Read\<close> and \<open>Write\<close> return an error; on an open
  connection the result is the environment's.
\<close>

definition conn_Write :: "conn \<Rightarrow> error option \<Rightarrow> session \<Rightarrow> error option" where
  "conn_Write c w s = (if c \<in> closed s then Some ErrClosed else w)"

definition conn_Read :: "conn \<Rightarrow> read_result \<Rightarrow> session \<Rightarrow> read_result" where
  "conn_Read c r s = (if c \<in> closed s then ReadErr ErrClosed else r)"

text \<open>\<open>stop\<close> (lines 232-239) closes the connection and keeps the handle in \<open>tcpConn\<close>.\<close>

definition stop :: "session \<Rightarrow> session" where
  "stop s =
     (case tcpConn (plugin s) of
        None \<Rightarrow> s
      | Some c \<Rightarrow> s\<lparr>closed := insert c (closed s), calls := calls s @ [ConnClose c]\<rparr>)"

text \<open>
  \<open>startTCPConn\<close> (lines 313-319). \<open>dial\<close> is the error of \<open>DialCall\<close>: with an error
  \<open>net.Dial\<close> returns no connection, without one a connection nobody holds yet.
\<close>

definition startTCPConn :: "error option \<Rightarrow> session \<Rightarrow> error option \<times> session" where
  "startTCPConn dial s =
     (let s' = s\<lparr>calls := calls s @ [DialCall ''tcp'' (''localhost:'' @ portNumber (plugin s))]\<rparr>
      in case dial of
           Some e \<Rightarrow> (Some (UnableToConnect e), s'\<lparr>plugin := (plugin s')\<lparr>tcpConn := None\<rparr>\<rparr>)
         | None \<Rightarrow>
             (None, s'\<lparr>plugin := (plugin s')\<lparr>tcpConn := Some (nextConn s')\<rparr>,
                       nextConn := Suc (nextConn s')\<rparr>))"

text \<open>\<open>initializeParameters\<close> (lines 322-335).\<close>

definition initializeParameters ::
  "remarshal_result \<Rightarrow> session \<Rightarrow> error option outcome \<times> session" where
  "initializeParameters parameters s =
     (case parameters of
        DecodePanic v \<Rightarrow> (Panic v, s)
      | DecodeFailed e \<Rightarrow> (Normal (Some (UnableToRemarshal e)), s)
      | Decoded portParameters \<Rightarrow>
          if PortNumber portParameters = [] then (Normal (Some PortNumberEmpty), s)
          else (Normal None,
                s\<lparr>plugin := (plugin s)\<lparr>portNumber := PortNumber portParameters,
                                         portType := Type portParameters\<rparr>\<rparr>))"

subsection \<open>The lifecycle\<close>

text \<open>
  \<open>execute\<close> (lines 113-184), up to the \<open>select\<close>: it either returns early or leaves
  the pump started and the lifecycle waiting. The deferred \<open>stop\<close> of lines 122-124 runs
  on every way out, also when a panic unwinds the function.
\<close>

definition failed :: "error \<Rightarrow> session \<Rightarrow> session" where
  "failed err s =
     s\<lparr>out := out s @ [SetExitCode ErrorExitCode, SetStatus ResultStatusFailed, SetOutput err]\<rparr>"

definition execute :: "remarshal_result \<Rightarrow> error option \<Rightarrow> session \<Rightarrow> unit outcome \<times> session" where
  "execute properties dial s =
     (case initializeParameters properties s of
        (Panic v, s1) \<Rightarrow> (Panic v, stop s1)
      | (Normal (Some err), s1) \<Rightarrow> (Normal (), stop ((failed err s1)\<lparr>life := LReturned\<rparr>))
      | (Normal None, s1) \<Rightarrow>
          (case startTCPConn dial s1 of
             (Some err, s2) \<Rightarrow> (Normal (), stop ((failed err s2)\<lparr>life := LReturned\<rparr>))
           | (None, s2) \<Rightarrow> (Normal (), s2\<lparr>pump := PReading, life := LRunning\<rparr>)))"

text \<open>
  The \<open>select\<close> of lines 162-181 with the case it takes, then the deferred \<open>stop\<close>.
\<close>

datatype select_case = Cancelled | Done int

definition execute_select :: "select_case \<Rightarrow> session \<Rightarrow> session" where
  "execute_select sc s =
     stop
       ((case sc of
           Cancelled \<Rightarrow> s\<lparr>out := out s @ [SetExitCode 0, SetStatus ResultStatusSuccess]\<rparr>
         | Done exitCode \<Rightarrow>
             if exitCode = 1
             then s\<lparr>out := out s @ [SetExitCode ErrorExitCode, SetStatus ResultStatusFailed]\<rparr>
             else s\<lparr>out := out s @ [SetExitCode SuccessExitCode, SetStatus ResultStatusSuccess]\<rparr>)
        \<lparr>life := LReturned\<rparr>)"

text \<open>
  \<open>Execute\<close> (lines 86-108). A panic of the body reaches the deferred function of lines
  94-99, which logs it and calls \<open>os.Exit(1)\<close>.
\<close>

definition Execute ::
  "CancelFlag \<Rightarrow> chan \<Rightarrow> remarshal_result \<Rightarrow> error option \<Rightarrow> session \<Rightarrow> session" where
  "Execute cancelFlag dc properties dial s =
     (let s0 = s\<lparr>plugin := (plugin s)\<lparr>dataChannel := Some dc\<rparr>\<rparr>
      in if ShutDown cancelFlag then s0\<lparr>out := out s0 @ [MarkAsShutdown], life := LReturned\<rparr>
         else if Canceled cancelFlag
         then s0\<lparr>out := out s0 @ [MarkAsCancelled], life := LReturned\<rparr>
         else (case execute properties dial s0 of
                 (Panic v, s1) \<Rightarrow> s1\<lparr>life := LExited 1\<rparr>
               | (Normal u, s1) \<Rightarrow> s1))"

subsection \<open>The outbound pump and the error classifier\<close>

text \<open>\<open>handleSSHDPortError\<close> (lines 281-289).\<close>

definition handleSSHDPortError :: "error \<Rightarrow> int" where
  "handleSSHDPortError err = (if err = EOF then SuccessExitCode else ErrorExitCode)"

text \<open>
  \<open>handlePortError\<close> (lines 292-310) blocks in the receive of line 301.
  \<open>handlePortError_begin\<close> is lines 296-300, \<open>handlePortError_end\<close> lines 301-309
  with the value received.
\<close>

definition handlePortError_begin :: "session \<Rightarrow> session" where
  "handlePortError_begin s =
     (let s1 = stop s in s1\<lparr>plugin := (plugin s1)\<lparr>reconnectToPort := True\<rparr>\<rparr>)"

definition handlePortError_end :: "error option \<Rightarrow> int" where
  "handlePortError_end received =
     (case received of Some err \<Rightarrow> ErrorExitCode | None \<Rightarrow> ResumeReadExitCode)"

text \<open>
  \<open>handleTCPReadError\<close> (lines 272-278). The result is the exit code, or \<open>None\<close> when
  the call is blocked in \<open>handlePortError\<close>.
\<close>

definition handleTCPReadError :: "error \<Rightarrow> session \<Rightarrow> int option \<times> session" where
  "handleTCPReadError err s =
     (if portType (plugin s) = LocalPortForwarding then (None, handlePortError_begin s)
      else (Some (handleSSHDPortError err), s))"

text \<open>What \<open>writePump\<close> does with an exit code of the classifier (lines 255-259).\<close>

definition pump_exit :: "int \<Rightarrow> session \<Rightarrow> session" where
  "pump_exit exitCode s =
     (if exitCode = ResumeReadExitCode then s\<lparr>pump := PReading\<rparr>
      else s\<lparr>pump := PFinished exitCode\<rparr>)"

text \<open>
  One turn of the loop of \<open>writePump\<close> (lines 251-268), from the \<open>Read\<close> to the next
  \<open>Read\<close>, to the receive of line 301 or to the return. \<open>r\<close> is what an open connection
  gives to read, \<open>sent\<close> the result of \<open>SendStreamDataMessage\<close>. With no connection
  the call of \<open>Read\<close> on the nil interface panics, and so does the call of
  \<open>SendStreamDataMessage\<close> of line 262 with no data channel; the deferred function of
  lines 243-247 recovers, and the named result \<open>errorCode\<close> still has its zero value.
\<close>

definition writePump :: "read_result \<Rightarrow> error option \<Rightarrow> session \<Rightarrow> session" where
  "writePump r sent s =
     (case tcpConn (plugin s) of
        None \<Rightarrow> s\<lparr>pump := PFinished 0, calls := calls s @ [PumpCrashed]\<rparr>
      | Some c \<Rightarrow>
          (let s1 = s\<lparr>calls := calls s @ [ConnRead c]\<rparr>
           in case conn_Read c r s of
                ReadErr err \<Rightarrow>
                  (case handleTCPReadError err s1 of
                     (None, s2) \<Rightarrow> s2\<lparr>pump := PAwait\<rparr>
                   | (Some exitCode, s2) \<Rightarrow> pump_exit exitCode s2)
              | ReadOk packet \<Rightarrow>
                  (case dataChannel (plugin s) of
                     None \<Rightarrow> s1\<lparr>pump := PFinished 0, calls := calls s1 @ [PumpCrashed]\<rparr>
                   | Some dc \<Rightarrow>
                       (let s2 = s1\<lparr>calls := calls s1 @ [SendStreamDataMessage Output packet]\<rparr>
                        in case sent of
                             Some err \<Rightarrow> s2\<lparr>pump := PFinished ErrorExitCode\<rparr>
                           | None \<Rightarrow> s2\<lparr>pump := PReading\<rparr>))))"

text \<open>The pump after the receive of line 301 (lines 301-309, then 255-259).\<close>

definition writePump_resume :: "error option \<Rightarrow> session \<Rightarrow> session" where
  "writePump_resume received s = pump_exit (handlePortError_end received) s"

subsection \<open>The inbound handler\<close>

text \<open>
  The flag of a \<open>Flag\<close> message (lines 217-219): \<open>binary.Read\<close> fills the 32-bit flag
  from the first four bytes, big-endian; with fewer bytes it fails, the error is dropped
  and the flag keeps its zero value.
\<close>

fun decode_flag :: "byte list \<Rightarrow> 32 word" where
  "decode_flag (a # b # c # d # rest) =
     push_bit 24 (ucast a) OR push_bit 16 (ucast b) OR push_bit 8 (ucast c) OR ucast d"
| "decode_flag payload = 0"

datatype handler_result = Returned "error option" | Blocked | Crashed

text \<open>The write of lines 212-215 and the return of line 228.\<close>

definition handler_write :: "AgentMessage \<Rightarrow> error option \<Rightarrow> session \<Rightarrow> handler_result \<times> session" where
  "handler_write m w s =
     (case tcpConn (plugin s) of
        None \<Rightarrow> (Crashed, s)
      | Some c \<Rightarrow>
          (Returned (conn_Write c w s), s\<lparr>calls := calls s @ [ConnWrite c (Payload m)]\<rparr>))"

text \<open>
  \<open>InputStreamMessageHandler\<close> (lines 187-229), up to its return or to the send of line
  204. \<open>dial\<close> is the outcome of the dial, \<open>w\<close> of the write on an open connection, if
  the call comes to them.
\<close>

definition InputStreamMessageHandler ::
  "AgentMessage \<Rightarrow> error option \<Rightarrow> error option \<Rightarrow> session \<Rightarrow> handler_result \<times> session" where
  "InputStreamMessageHandler m dial w s =
     (if tcpConn (plugin s) = None then (Returned None, s)
      else if PayloadType m = Output then
        (if reconnectToPort (plugin s)
         then (case startTCPConn dial s of (err, s1) \<Rightarrow> (Blocked, s1\<lparr>handler := HSending err m\<rparr>))
         else handler_write m w s)
      else if PayloadType m = Flag then
        (if decode_flag (Payload m) = DisconnectToPort then (Returned None, stop s)
         else (Returned None, s))
      else (Returned None, s))"

text \<open>The handler after the send of line 204 (lines 205-215 and 228).\<close>

definition InputStreamMessageHandler_resume ::
  "error option \<Rightarrow> session \<Rightarrow> handler_result \<times> session" where
  "InputStreamMessageHandler_resume w s =
     (case handler s of
        HSent (Some err) m \<Rightarrow> (Returned (Some err), s\<lparr>handler := HIdle\<rparr>)
      | HSent None m \<Rightarrow>
          handler_write m w (s\<lparr>plugin := (plugin s)\<lparr>reconnectToPort := False\<rparr>, handler := HIdle\<rparr>)
      | HSending err m \<Rightarrow> (Blocked, s)
      | HIdle \<Rightarrow> (Blocked, s))"

subsection \<open>The session as a transition system\<close>

text \<open>
  The atomic actions. \<open>ARendezvous\<close> is the hand-over on \<open>reconnectToPortErr\<close>: the
  handler blocked in the send of line 204 meets the pump blocked in the receive of line
  301. \<open>ASelect\<close> is the \<open>select\<close> of line 162: the case \<open>Done\<close> needs the pump's
  exit code in the channel \<open>done\<close>, the case \<open>Cancelled\<close> the cancel flag, which the
  environment may set at any time. After \<open>os.Exit\<close> nothing runs.
\<close>

datatype action =
    AExecute CancelFlag chan remarshal_result "error option"
  | ASelect select_case
  | AMessage AgentMessage "error option" "error option"
  | ARendezvous
  | AHandlerResume "error option"
  | APump read_result "error option"

definition exited :: "session \<Rightarrow> bool" where
  "exited s = (case life s of LExited n \<Rightarrow> True | _ \<Rightarrow> False)"

definition rendezvous :: "session \<Rightarrow> session option" where
  "rendezvous s =
     (case handler s of
        HSending err m \<Rightarrow>
          (if pump s = PAwait then Some (writePump_resume err (s\<lparr>handler := HSent err m\<rparr>))
           else None)
      | _ \<Rightarrow> None)"

definition select_enabled :: "select_case \<Rightarrow> session \<Rightarrow> bool" where
  "select_enabled sc s =
     (life s = LRunning \<and> (case sc of Cancelled \<Rightarrow> True | Done exitCode \<Rightarrow> pump s = PFinished exitCode))"

fun step :: "action \<Rightarrow> session \<Rightarrow> session option" where
  "step (AExecute cancelFlag dc properties dial) s =
     (if life s = LIdle then Some (Execute cancelFlag dc properties dial s) else None)"
| "step (ASelect sc) s =
     (if select_enabled sc s then Some (execute_select sc s) else None)"
| "step (AMessage m dial w) s =
     (if handler s = HIdle \<and> \<not> exited s then Some (snd (InputStreamMessageHandler m dial w s))
      else None)"
| "step ARendezvous s = (if exited s then None else rendezvous s)"
| "step (AHandlerResume w) s =
     (case handler s of
        HSent err m \<Rightarrow> if exited s then None else Some (snd (InputStreamMessageHandler_resume w s))
      | _ \<Rightarrow> None)"
| "step (APump r sent) s =
     (if pump s = PReading \<and> \<not> exited s then Some (writePump r sent s) else None)"

text \<open>
  The invariant of the session that the reachable states keep: the pump is started before
  anything sets \<open>reconnectToPort\<close>; with \<open>reconnectToPort\<close> set and no handler call
  in flight the pump waits in line 301 and the handle, if there is one, is closed; a
  handler that carries a dial error holds no handle.
\<close>

definition session_inv :: "session \<Rightarrow> bool" where
  "session_inv s \<longleftrightarrow>
     (pump s = PNotStarted \<longrightarrow> \<not> reconnectToPort (plugin s) \<and> handler s = HIdle) \<and>
     (life s = LIdle \<or> exited s \<longrightarrow> pump s = PNotStarted) \<and>
     (handler s = HIdle \<and> reconnectToPort (plugin s) \<longrightarrow>
        (case tcpConn (plugin s) of None \<Rightarrow> True | Some c \<Rightarrow> c \<in> closed s \<and> pump s = PAwait)) \<and>
     (case handler s of
        HIdle \<Rightarrow> True
      | HSending err m \<Rightarrow> err \<noteq> None \<longrightarrow> tcpConn (plugin s) = None
      | HSent err m \<Rightarrow> err \<noteq> None \<longrightarrow> tcpConn (plugin s) = None)"

text \<open>
  Connections are numbered in the order of the dials, so the handle held and every closed
  connection are older than the next dial's.
\<close>

definition conn_inv :: "session \<Rightarrow> bool" where
  "conn_inv s \<longleftrightarrow>
     (\<forall>c \<in> closed s. c < nextConn s) \<and>
     (\<forall>c. tcpConn (plugin s) = Some c \<longrightarrow> c < nextConn s)"

text \<open>A session in the \<open>select\<close> of line 162, started with the given forwarding type.\<close>

definition running :: "string \<Rightarrow> session" where
  "running t =
     Execute \<lparr>ShutDown = False, Canceled = False\<rparr> 0
       (Decoded \<lparr>PortNumber = ''8080'', Type = t\<rparr>) None init"

text \<open>
  The same session in local port forwarding, after a read of the pump has ended in
  \<open>io.EOF\<close>: the pump waits in line 301 for the next data message.
\<close>

definition pending :: session where
  "pending = writePump (ReadErr EOF) None (running LocalPortForwarding)"

fun run :: "action list \<Rightarrow> session \<Rightarrow> session option" where
  "run [] s = Some s"
| "run (a # as) s = (case step a s of None \<Rightarrow> None | Some s' \<Rightarrow> run as s')"

section \<open>Auxiliary facts\<close>

subsection \<open>What \<open>stop\<close> and the \<open>select\<close> leave alone\<close>

lemma stop_fields [simp]:
  "plugin (stop s) = plugin s" "pump (stop s) = pump s" "handler (stop s) = handler s"
  "life (stop s) = life s" "out (stop s) = out s" "nextConn (stop s) = nextConn s"
  by (simp_all add: stop_def split: option.splits)

lemma stop_closed:
  "closed (stop s) = (case tcpConn (plugin s) of None \<Rightarrow> closed s | Some c \<Rightarrow> insert c (closed s))"
  by (simp add: stop_def split: option.splits)

lemma exited_stop [simp]: "exited (stop s) = exited s"
  by (simp add: exited_def)

lemma execute_select_closed [simp]: "closed (execute_select sc s) = closed (stop s)"
  by (cases sc) (simp_all add: execute_select_def stop_closed split: option.splits)

lemma execute_select_plugin [simp]: "plugin (execute_select sc s) = plugin s"
  by (cases sc) (simp_all add: execute_select_def)

lemma execute_select_pump [simp]: "pump (execute_select sc s) = pump s"
  by (cases sc) (simp_all add: execute_select_def)

lemma execute_select_handler [simp]: "handler (execute_select sc s) = handler s"
  by (cases sc) (simp_all add: execute_select_def)

lemma execute_select_life [simp]: "life (execute_select sc s) = LReturned"
  by (cases sc) (simp_all add: execute_select_def)

subsection \<open>The invariant is kept by every action\<close>

lemma session_inv_mono:
  assumes i: "session_inv s" and p: "plugin s' = plugin s" "pump s' = pump s" "handler s' = handler s"
    and c: "closed s \<subseteq> closed s'" and l: "life s' \<noteq> LIdle" "\<not> exited s'"
  shows "session_inv s'"
proof -
  from i have a1: "pump s = PNotStarted \<longrightarrow> \<not> reconnectToPort (plugin s) \<and> handler s = HIdle"
    and a3: "handler s = HIdle \<and> reconnectToPort (plugin s) \<longrightarrow>
        (case tcpConn (plugin s) of None \<Rightarrow> True | Some c \<Rightarrow> c \<in> closed s \<and> pump s = PAwait)"
    and a4: "case handler s of
        HIdle \<Rightarrow> True
      | HSending err m \<Rightarrow> err \<noteq> None \<longrightarrow> tcpConn (plugin s) = None
      | HSent err m \<Rightarrow> err \<noteq> None \<longrightarrow> tcpConn (plugin s) = None"
    by (simp_all add: session_inv_def)
  have c1: "pump s' = PNotStarted \<longrightarrow> \<not> reconnectToPort (plugin s') \<and> handler s' = HIdle"
    using a1 p by simp
  have c2: "life s' = LIdle \<or> exited s' \<longrightarrow> pump s' = PNotStarted"
    using l by simp
  have c3: "handler s' = HIdle \<and> reconnectToPort (plugin s') \<longrightarrow>
        (case tcpConn (plugin s') of None \<Rightarrow> True | Some c \<Rightarrow> c \<in> closed s' \<and> pump s' = PAwait)"
    using a3 p c by (auto split: option.splits)
  have c4: "case handler s' of
        HIdle \<Rightarrow> True
      | HSending err m \<Rightarrow> err \<noteq> None \<longrightarrow> tcpConn (plugin s') = None
      | HSent err m \<Rightarrow> err \<noteq> None \<longrightarrow> tcpConn (plugin s') = None"
    using a4 p by (auto split: handler_pc.splits)
  from c1 c2 c3 c4 show ?thesis
    unfolding session_inv_def by (intro conjI)
qed

lemma inv_init: "session_inv init"
  by (simp add: session_inv_def init_def NewPlugin_def exited_def)

lemma inv_Execute:
  assumes "session_inv s" "life s = LIdle"
  shows "session_inv (Execute cancelFlag dc properties dial s)"
  using assms
  by (auto simp add: session_inv_def Execute_def execute_def initializeParameters_def
      startTCPConn_def failed_def exited_def Let_def stop_closed
      split: remarshal_result.splits option.splits if_splits)

lemma inv_select:
  assumes "session_inv s" "select_enabled sc s"
  shows "session_inv (execute_select sc s)"
  using assms(1)
  by (rule session_inv_mono) (auto simp add: exited_def stop_closed split: option.splits)

lemma inv_message:
  assumes "session_inv s" "handler s = HIdle" "\<not> exited s"
  shows "session_inv (snd (InputStreamMessageHandler m dial w s))"
  using assms
  by (auto simp add: session_inv_def InputStreamMessageHandler_def handler_write_def
      startTCPConn_def exited_def Let_def stop_closed
      split: option.splits if_splits)

lemma inv_rendezvous:
  assumes "session_inv s" "rendezvous s = Some s'"
  shows "session_inv s'"
  using assms
  by (auto simp add: session_inv_def rendezvous_def writePump_resume_def pump_exit_def
      handlePortError_end_def exited_def ErrorExitCode_def ResumeReadExitCode_def
      split: handler_pc.splits option.splits if_splits)

lemma inv_handler_resume:
  assumes "session_inv s" "handler s = HSent err m"
  shows "session_inv (snd (InputStreamMessageHandler_resume w s))"
  using assms
  by (auto simp add: session_inv_def InputStreamMessageHandler_resume_def handler_write_def
      exited_def split: option.splits if_splits)

lemma inv_pump:
  assumes "session_inv s" "pump s = PReading"
  shows "session_inv (writePump r sent s)"
  using assms
  by (auto simp add: session_inv_def writePump_def handleTCPReadError_def handlePortError_begin_def
      pump_exit_def handleSSHDPortError_def exited_def Let_def stop_closed
      SuccessExitCode_def ErrorExitCode_def ResumeReadExitCode_def
      split: option.splits read_result.splits handler_pc.splits if_splits)

lemma inv_step:
  assumes "session_inv s" "step a s = Some s'"
  shows "session_inv s'"
proof (cases a)
  case (AExecute cancelFlag dc properties dial)
  with assms show ?thesis by (auto simp: inv_Execute split: if_splits)
next
  case (ASelect sc)
  with assms show ?thesis by (auto simp: inv_select split: if_splits)
next
  case (AMessage m dial w)
  with assms show ?thesis by (auto simp: inv_message split: if_splits)
next
  case ARendezvous
  with assms show ?thesis by (auto simp: inv_rendezvous split: if_splits)
next
  case (AHandlerResume w)
  with assms show ?thesis by (auto simp: inv_handler_resume split: if_splits handler_pc.splits)
next
  case (APump r sent)
  with assms show ?thesis by (auto simp: inv_pump split: if_splits)
qed

lemma inv_run:
  "session_inv s \<Longrightarrow> run as s = Some s' \<Longrightarrow> session_inv s'"
proof (induction as arbitrary: s)
  case Nil
  then show ?case by simp
next
  case (Cons a as)
  from Cons.prems(2) obtain s1 where s1: "step a s = Some s1" and rest: "run as s1 = Some s'"
    by (cases "step a s") simp_all
  from Cons.prems(1) s1 have "session_inv s1" by (rule inv_step)
  then show ?case using rest by (rule Cons.IH)
qed

lemma reachable_inv: "run as init = Some s \<Longrightarrow> session_inv s"
  using inv_init by (rule inv_run)

subsection \<open>Connections are numbered in the order of the dials\<close>

lemma conn_inv_init: "conn_inv init"
  by (simp add: conn_inv_def init_def NewPlugin_def)

lemma conn_inv_Execute: "conn_inv s \<Longrightarrow> conn_inv (Execute cancelFlag dc properties dial s)"
  by (auto simp add: conn_inv_def Execute_def execute_def initializeParameters_def failed_def
      startTCPConn_def stop_def Let_def less_Suc_eq
      split: remarshal_result.splits option.splits)

lemma conn_inv_select: "conn_inv s \<Longrightarrow> conn_inv (execute_select sc s)"
  by (cases sc) (auto simp add: conn_inv_def execute_select_def stop_def split: option.splits)

lemma conn_inv_message: "conn_inv s \<Longrightarrow> conn_inv (snd (InputStreamMessageHandler m dial w s))"
  by (auto simp add: conn_inv_def InputStreamMessageHandler_def handler_write_def
      startTCPConn_def stop_def Let_def less_Suc_eq split: option.splits)

lemma conn_inv_rendezvous: "conn_inv s \<Longrightarrow> rendezvous s = Some s' \<Longrightarrow> conn_inv s'"
  by (auto simp add: conn_inv_def rendezvous_def writePump_resume_def pump_exit_def
      split: handler_pc.splits if_splits)

lemma conn_inv_handler_resume: "conn_inv s \<Longrightarrow> conn_inv (snd (InputStreamMessageHandler_resume w s))"
  by (auto simp add: conn_inv_def InputStreamMessageHandler_resume_def handler_write_def
      split: handler_pc.splits option.splits)

lemma conn_inv_pump: "conn_inv s \<Longrightarrow> conn_inv (writePump r sent s)"
  by (auto simp add: conn_inv_def writePump_def handleTCPReadError_def handlePortError_begin_def
      pump_exit_def stop_def Let_def split: option.splits read_result.splits)

lemma conn_inv_step: "conn_inv s \<Longrightarrow> step a s = Some s' \<Longrightarrow> conn_inv s'"
  by (cases a)
    (auto simp add: conn_inv_Execute conn_inv_select conn_inv_message conn_inv_rendezvous
      conn_inv_handler_resume conn_inv_pump split: if_splits handler_pc.splits)

lemma conn_inv_run: "conn_inv s \<Longrightarrow> run as s = Some s' \<Longrightarrow> conn_inv s'"
proof (induction as arbitrary: s)
  case Nil
  then show ?case by simp
next
  case (Cons a as)
  from Cons.prems(2) obtain s1 where s1: "step a s = Some s1" and rest: "run as s1 = Some s'"
    by (cases "step a s") simp_all
  from Cons.prems(1) s1 have "conn_inv s1" by (rule conn_inv_step)
  then show ?case using rest by (rule Cons.IH)
qed

lemma reachable_conn_inv: "run as init = Some s \<Longrightarrow> conn_inv s"
  using conn_inv_init by (rule conn_inv_run)

subsection \<open>A pending reconnection in a reachable state\<close>

lemma reachable_pending:
  assumes "run as init = Some s" "handler s = HIdle" "reconnectToPort (plugin s)"
    "tcpConn (plugin s) = Some c"
  shows "pump s = PAwait" "c \<in> closed s" "\<not> exited s"
proof -
  from assms(1) have i: "session_inv s" by (rule reachable_inv)
  from i assms(2-4) show p: "pump s = PAwait" and "c \<in> closed s"
    by (simp_all add: session_inv_def)
  from i have "exited s \<longrightarrow> pump s = PNotStarted" by (simp add: session_inv_def)
  with p show "\<not> exited s" by auto
qed

subsection \<open>Every turn of the pump starts with a read of the handle held\<close>

lemma writePump_reads:
  "tcpConn (plugin s) = Some c \<Longrightarrow> \<exists>rest. calls (writePump r sent s) = calls s @ ConnRead c # rest"
  by (auto simp add: writePump_def handleTCPReadError_def handlePortError_begin_def pump_exit_def
      stop_def Let_def split: option.splits read_result.splits)

subsection \<open>The sample sessions\<close>

lemma running_fields:
  "plugin (running t) = \<lparr>tcpConn = Some 0, dataChannel = Some 0, portNumber = ''8080'',
     portType = t, reconnectToPort = False\<rparr>"
  "closed (running t) = {}" "nextConn (running t) = 1" "pump (running t) = PReading"
  "handler (running t) = HIdle" "life (running t) = LRunning" "out (running t) = []"
  "calls (running t) = [DialCall ''tcp'' ''localhost:8080'']"
  by (simp_all add: running_def Execute_def execute_def initializeParameters_def startTCPConn_def
      init_def NewPlugin_def Let_def)

lemma pending_fields:
  "plugin pending = \<lparr>tcpConn = Some 0, dataChannel = Some 0, portNumber = ''8080'',
     portType = LocalPortForwarding, reconnectToPort = True\<rparr>"
  "closed pending = {0}" "nextConn pending = 1" "pump pending = PAwait"
  "handler pending = HIdle" "life pending = LRunning" "out pending = []"
  "calls pending = [DialCall ''tcp'' ''localhost:8080'', ConnRead 0, ConnClose 0]"
  by (simp_all add: pending_def writePump_def conn_Read_def handleTCPReadError_def
      handlePortError_begin_def stop_def running_fields Let_def)

lemma run_pending:
  "run [AExecute \<lparr>ShutDown = False, Canceled = False\<rparr> 0
          (Decoded \<lparr>PortNumber = ''8080'', Type = LocalPortForwarding\<rparr>) None,
        APump (ReadErr EOF) None] init = Some pending"
proof -
  have "step (AExecute \<lparr>ShutDown = False, Canceled = False\<rparr> 0
          (Decoded \<lparr>PortNumber = ''8080'', Type = LocalPortForwarding\<rparr>) None) init =
        Some (running LocalPortForwarding)"
    by (simp add: running_def init_def)
  moreover have "step (APump (ReadErr EOF) None) (running LocalPortForwarding) = Some pending"
    by (simp add: pending_def running_fields exited_def)
  ultimately show ?thesis by simp
qed

section \<open>The claims\<close>

subsection \<open>C1: cancellation seen before the pump completes\<close>

text \<open>
  C1. When the \<open>select\<close> of \<open>execute\<close> takes the cancellation case, whatever the
  pump is doing, the lifecycle sets exit code 0 and the status \<open>ResultStatusSuccess\<close>
  (not a cancelled status), returns, and the deferred \<open>stop\<close> closes the connection
  that the plugin holds.
\<close>

theorem cancelled_first:
  "life s = LRunning \<Longrightarrow>
   step (ASelect Cancelled) s = Some (execute_select Cancelled s) \<and>
   out (execute_select Cancelled s) = out s @ [SetExitCode 0, SetStatus ResultStatusSuccess] \<and>
   life (execute_select Cancelled s) = LReturned \<and>
   pump (execute_select Cancelled s) = pump s \<and>
   (\<forall>c. tcpConn (plugin s) = Some c \<longrightarrow> c \<in> closed (execute_select Cancelled s))"
  by (simp add: select_enabled_def execute_select_def stop_closed)

theorem cancelled_first_witness:
  "life pending = LRunning \<and> tcpConn (plugin pending) = Some 0 \<and>
   step (ASelect Cancelled) pending = Some (execute_select Cancelled pending) \<and>
   out (execute_select Cancelled pending) = [SetExitCode 0, SetStatus ResultStatusSuccess] \<and>
   life (execute_select Cancelled pending) = LReturned \<and>
   pump (execute_select Cancelled pending) = PAwait \<and>
   0 \<in> closed (execute_select Cancelled pending)"
proof -
  have l: "life pending = LRunning" by (simp add: pending_fields)
  show ?thesis using cancelled_first [OF l] by (simp add: pending_fields)
qed

text \<open>
  The status the claim names is never set: after a cancellation the only calls on the
  output are \<open>SetExitCode 0\<close> and \<open>SetStatus ResultStatusSuccess\<close>.
\<close>

theorem cancelled_first_counterexample:
  "run [AExecute \<lparr>ShutDown = False, Canceled = False\<rparr> 0
          (Decoded \<lparr>PortNumber = ''8080'', Type = []\<rparr>) None,
        ASelect Cancelled] init = Some (execute_select Cancelled (running [])) \<and>
   out (execute_select Cancelled (running [])) = [SetExitCode 0, SetStatus ResultStatusSuccess] \<and>
   SetStatus ResultStatusCancelled \<notin> set (out (execute_select Cancelled (running []))) \<and>
   MarkAsCancelled \<notin> set (out (execute_select Cancelled (running [])))"
proof -
  have "step (AExecute \<lparr>ShutDown = False, Canceled = False\<rparr> 0
          (Decoded \<lparr>PortNumber = ''8080'', Type = []\<rparr>) None) init = Some (running [])"
    by (simp add: running_def init_def)
  moreover have "step (ASelect Cancelled) (running []) = Some (execute_select Cancelled (running []))"
    by (simp add: select_enabled_def running_fields)
  moreover have "out (execute_select Cancelled (running [])) =
      [SetExitCode 0, SetStatus ResultStatusSuccess]"
    by (simp add: execute_select_def running_fields)
  ultimately show ?thesis by simp
qed

subsection \<open>C2: a panic while the plugin executes\<close>




subsection \<open>C3: the disconnect flag, then data\<close>

text \<open>
  C3. A \<open>Flag\<close> message that decodes to \<open>DisconnectToPort\<close>, arriving while the plugin
  holds an open connection and \<open>reconnectToPort\<close> is not set, closes the connection,
  keeps the handle and leaves \<open>reconnectToPort\<close> unset. A data message that follows
  with no read error in between is not dropped: the handler writes its payload to the closed
  connection and returns the error of that write.
\<close>

theorem disconnect_flag_then_data:
  "tcpConn (plugin s) = Some c \<Longrightarrow> c \<notin> closed s \<Longrightarrow> \<not> reconnectToPort (plugin s) \<Longrightarrow>
   PayloadType m = Flag \<Longrightarrow> decode_flag (Payload m) = DisconnectToPort \<Longrightarrow>
   PayloadType m' = Output \<Longrightarrow>
   InputStreamMessageHandler m dial w s = (Returned None, stop s) \<and>
   c \<in> closed (stop s) \<and>
   tcpConn (plugin (stop s)) = Some c \<and>
   \<not> reconnectToPort (plugin (stop s)) \<and>
   InputStreamMessageHandler m' dial' w' (stop s) =
     (Returned (Some ErrClosed), (stop s)\<lparr>calls := calls (stop s) @ [ConnWrite c (Payload m')]\<rparr>)"
  by (simp add: InputStreamMessageHandler_def handler_write_def conn_Write_def stop_closed
      Output_def Flag_def)

theorem disconnect_flag_then_data_witness:
  "tcpConn (plugin (running [])) = Some 0 \<and> 0 \<notin> closed (running []) \<and>
   \<not> reconnectToPort (plugin (running [])) \<and>
   PayloadType \<lparr>PayloadType = Flag, SequenceNumber = 1, Payload = [0, 0, 0, 1]\<rparr> = Flag \<and>
   decode_flag (Payload \<lparr>PayloadType = Flag, SequenceNumber = 1, Payload = [0, 0, 0, 1]\<rparr>) =
     DisconnectToPort \<and>
   PayloadType \<lparr>PayloadType = Output, SequenceNumber = 2, Payload = [7]\<rparr> = Output \<and>
   InputStreamMessageHandler \<lparr>PayloadType = Flag, SequenceNumber = 1, Payload = [0, 0, 0, 1]\<rparr>
     None None (running []) = (Returned None, stop (running [])) \<and>
   0 \<in> closed (stop (running [])) \<and>
   InputStreamMessageHandler \<lparr>PayloadType = Output, SequenceNumber = 2, Payload = [7]\<rparr>
     None None (stop (running [])) =
     (Returned (Some ErrClosed),
      (stop (running []))\<lparr>calls := calls (stop (running [])) @ [ConnWrite 0 [7]]\<rparr>)"
proof -
  have h: "tcpConn (plugin (running [])) = Some 0" "0 \<notin> closed (running [])"
    "\<not> reconnectToPort (plugin (running []))"
    "PayloadType \<lparr>PayloadType = Flag, SequenceNumber = 1, Payload = [0, 0, 0, 1]\<rparr> = Flag"
    "decode_flag (Payload \<lparr>PayloadType = Flag, SequenceNumber = 1, Payload = [0, 0, 0, 1]\<rparr>) =
       DisconnectToPort"
    "PayloadType \<lparr>PayloadType = Output, SequenceNumber = 2, Payload = [7]\<rparr> = Output"
    by (simp_all add: running_fields DisconnectToPort_def)
  show ?thesis
    using h disconnect_flag_then_data [OF h, of None None None None] by simp
qed

text \<open>
  The data message after the flag is answered with an error, and the write shows among the
  calls on the network.
\<close>

theorem disconnect_flag_then_data_counterexample:
  "fst (InputStreamMessageHandler \<lparr>PayloadType = Output, SequenceNumber = 2, Payload = [104, 105]\<rparr> None None
     (snd (InputStreamMessageHandler \<lparr>PayloadType = Flag, SequenceNumber = 1, Payload = [0, 0, 0, 1]\<rparr> None None
        (running [])))) = Returned (Some ErrClosed) \<and>
   calls (snd (InputStreamMessageHandler \<lparr>PayloadType = Output, SequenceNumber = 2, Payload = [104, 105]\<rparr> None None
     (snd (InputStreamMessageHandler \<lparr>PayloadType = Flag, SequenceNumber = 1, Payload = [0, 0, 0, 1]\<rparr> None None
        (running []))))) =
     [DialCall ''tcp'' ''localhost:8080'', ConnClose 0, ConnWrite 0 [104, 105]]"
  by (simp add: InputStreamMessageHandler_def handler_write_def conn_Write_def stop_def
      running_fields Output_def Flag_def DisconnectToPort_def)

subsection \<open>C4: a pending reconnection and the connection handle\<close>

text \<open>
  C4. In every reachable state of the session in which no call of the inbound handler is in
  flight, if \<open>reconnectToPort\<close> is set then the plugin holds no open connection: the
  handle is absent, or it is the handle of a connection that has been closed.
\<close>

theorem reconnect_pending_handle:
  "run as init = Some s \<Longrightarrow> handler s = HIdle \<Longrightarrow> reconnectToPort (plugin s) \<Longrightarrow>
   tcpConn (plugin s) = None \<or> (\<exists>c. tcpConn (plugin s) = Some c \<and> c \<in> closed s)"
proof (cases "tcpConn (plugin s)")
  case None
  then show ?thesis by simp
next
  case (Some c)
  assume "run as init = Some s" "handler s = HIdle" "reconnectToPort (plugin s)"
  then have "c \<in> closed s" using Some by (rule reachable_pending)
  with Some show ?thesis by simp
qed

theorem reconnect_pending_handle_witness:
  "run [AExecute \<lparr>ShutDown = False, Canceled = False\<rparr> 0
          (Decoded \<lparr>PortNumber = ''8080'', Type = LocalPortForwarding\<rparr>) None,
        APump (ReadErr EOF) None] init = Some pending \<and>
   handler pending = HIdle \<and> reconnectToPort (plugin pending) \<and>
   tcpConn (plugin pending) = Some 0 \<and> 0 \<in> closed pending"
proof -
  have h: "handler pending = HIdle" "reconnectToPort (plugin pending)"
    by (simp_all add: pending_fields)
  show ?thesis
    using run_pending h reconnect_pending_handle [OF run_pending h]
    by (simp add: pending_fields)
qed

text \<open>
  The handle is not absent: after a read error in local port forwarding the session is
  reachable with \<open>reconnectToPort\<close> set and the closed connection's handle still in
  \<open>tcpConn\<close>. And while a handler call is in flight, between the dial and the send of line
  204, \<open>reconnectToPort\<close> is set and the handle is that of the new, open connection.
\<close>

theorem reconnect_pending_handle_counterexample:
  "run [AExecute \<lparr>ShutDown = False, Canceled = False\<rparr> 0
          (Decoded \<lparr>PortNumber = ''8080'', Type = LocalPortForwarding\<rparr>) None,
        APump (ReadErr EOF) None] init = Some pending \<and>
   reconnectToPort (plugin pending) \<and> tcpConn (plugin pending) = Some 0 \<and>
   step (AMessage \<lparr>PayloadType = Output, SequenceNumber = 1, Payload = [7]\<rparr> None None) pending =
     Some (snd (InputStreamMessageHandler
       \<lparr>PayloadType = Output, SequenceNumber = 1, Payload = [7]\<rparr> None None pending)) \<and>
   reconnectToPort (plugin (snd (InputStreamMessageHandler
       \<lparr>PayloadType = Output, SequenceNumber = 1, Payload = [7]\<rparr> None None pending))) \<and>
   tcpConn (plugin (snd (InputStreamMessageHandler
       \<lparr>PayloadType = Output, SequenceNumber = 1, Payload = [7]\<rparr> None None pending))) = Some 1 \<and>
   1 \<notin> closed (snd (InputStreamMessageHandler
       \<lparr>PayloadType = Output, SequenceNumber = 1, Payload = [7]\<rparr> None None pending))"
  using run_pending
  by (simp add: pending_fields exited_def InputStreamMessageHandler_def startTCPConn_def Let_def)

subsection \<open>C5: reconnection, the dial succeeds\<close>

text \<open>
  C5. In a reachable state with \<open>reconnectToPort\<close> set, a handle held and no handler call
  in flight, a data message whose dial succeeds goes as follows: the handler installs the
  new connection and blocks in the send of line 204 with no error; the pump takes the value,
  \<open>handlePortError\<close> returns \<open>ResumeReadExitCode\<close> and the pump is back at its
  \<open>Read\<close>, on the new connection, which is open and is not the old one; the handler then
  clears \<open>reconnectToPort\<close>, and it does so whatever the pump has done since the
  hand-over. The next turn of the pump, before or after the handler has returned, is
  enabled and starts with a \<open>Read\<close> on the new connection, whose result is the
  environment's since that connection is open.
\<close>

theorem reconnect_dial_succeeds:
  "run as init = Some s \<Longrightarrow> handler s = HIdle \<Longrightarrow> reconnectToPort (plugin s) \<Longrightarrow>
   tcpConn (plugin s) \<noteq> None \<Longrightarrow> PayloadType m = Output \<Longrightarrow>
   \<exists>s1 s2 s3.
     InputStreamMessageHandler m None w s = (Blocked, s1) \<and>
     step (AMessage m None w) s = Some s1 \<and>
     handler s1 = HSending None m \<and>
     step ARendezvous s1 = Some s2 \<and>
     handlePortError_end None = ResumeReadExitCode \<and>
     pump s2 = PReading \<and>
     tcpConn (plugin s2) = Some (nextConn s) \<and>
     step (AHandlerResume w) s2 = Some s3 \<and>
     \<not> reconnectToPort (plugin s3) \<and>
     tcpConn (plugin s3) = Some (nextConn s) \<and>
     pump s3 = PReading \<and>
     nextConn s \<notin> closed s3 \<and>
     tcpConn (plugin s) \<noteq> Some (nextConn s) \<and>
     (\<forall>s'. handler s' = HSent None m \<longrightarrow>
        \<not> reconnectToPort (plugin (snd (InputStreamMessageHandler_resume w s')))) \<and>
     (\<forall>r sent. \<exists>rest.
        step (APump r sent) s3 = Some (writePump r sent s3) \<and>
        calls (writePump r sent s3) = calls s3 @ ConnRead (nextConn s) # rest \<and>
        conn_Read (nextConn s) r s3 = r) \<and>
     (\<forall>r sent. \<exists>rest.
        step (APump r sent) s2 = Some (writePump r sent s2) \<and>
        calls (writePump r sent s2) = calls s2 @ ConnRead (nextConn s) # rest \<and>
        conn_Read (nextConn s) r s2 = r)"
proof -
  assume r: "run as init = Some s" and i: "handler s = HIdle" and rp: "reconnectToPort (plugin s)"
    and t: "tcpConn (plugin s) \<noteq> None" and o: "PayloadType m = Output"
  from t obtain c where c: "tcpConn (plugin s) = Some c" by auto
  from r i rp c have p: "pump s = PAwait" and e: "\<not> exited s"
    by (rule reachable_pending)+
  from r have "conn_inv s" by (rule reachable_conn_inv)
  then have fresh: "nextConn s \<notin> closed s" "c \<noteq> nextConn s"
    using c by (auto simp add: conn_inv_def)
  define s1 where "s1 = snd (InputStreamMessageHandler m None w s)"
  define s2 where "s2 = writePump_resume None (s1\<lparr>handler := HSent None m\<rparr>)"
  define s3 where "s3 = snd (InputStreamMessageHandler_resume w s2)"
  have h1: "InputStreamMessageHandler m None w s = (Blocked, s1)"
    using rp o c by (simp add: s1_def InputStreamMessageHandler_def startTCPConn_def Let_def)
  have f1: "handler s1 = HSending None m" "pump s1 = PAwait" "life s1 = life s"
    "tcpConn (plugin s1) = Some (nextConn s)" "closed s1 = closed s"
    using rp o c p
    by (simp_all add: s1_def InputStreamMessageHandler_def startTCPConn_def Let_def)
  have e1: "\<not> exited s1" using e f1(3) by (simp add: exited_def)
  have st1: "step (AMessage m None w) s = Some s1"
    using i e by (simp add: s1_def)
  have st2: "step ARendezvous s1 = Some s2"
    using f1 e1 by (simp add: rendezvous_def s2_def)
  have res: "handlePortError_end None = ResumeReadExitCode"
    by (simp add: handlePortError_end_def)
  have f2: "pump s2 = PReading" "handler s2 = HSent None m" "life s2 = life s"
    "tcpConn (plugin s2) = Some (nextConn s)" "closed s2 = closed s"
    using f1 by (simp_all add: s2_def writePump_resume_def res pump_exit_def)
  have e2: "\<not> exited s2" using e f2(3) by (simp add: exited_def)
  have st3: "step (AHandlerResume w) s2 = Some s3"
    using f2 e2 by (simp add: s3_def)
  have f3: "\<not> reconnectToPort (plugin s3)" "tcpConn (plugin s3) = Some (nextConn s)"
    "pump s3 = PReading" "closed s3 = closed s" "life s3 = life s"
    using f2 by (simp_all add: s3_def InputStreamMessageHandler_resume_def handler_write_def)
  have e3: "\<not> exited s3" using e f3(5) by (simp add: exited_def)
  have n: "nextConn s \<notin> closed s3" "tcpConn (plugin s) \<noteq> Some (nextConn s)"
    using fresh c f3(4) by simp_all
  have late: "\<forall>s'. handler s' = HSent None m \<longrightarrow>
      \<not> reconnectToPort (plugin (snd (InputStreamMessageHandler_resume w s')))"
    by (simp add: InputStreamMessageHandler_resume_def handler_write_def split: option.splits)
  have rd3: "\<forall>r sent. \<exists>rest.
      step (APump r sent) s3 = Some (writePump r sent s3) \<and>
      calls (writePump r sent s3) = calls s3 @ ConnRead (nextConn s) # rest \<and>
      conn_Read (nextConn s) r s3 = r"
    using writePump_reads [OF f3(2)] f3(3,4) e3 fresh(1) by (simp add: conn_Read_def)
  have rd2: "\<forall>r sent. \<exists>rest.
      step (APump r sent) s2 = Some (writePump r sent s2) \<and>
      calls (writePump r sent s2) = calls s2 @ ConnRead (nextConn s) # rest \<and>
      conn_Read (nextConn s) r s2 = r"
    using writePump_reads [OF f2(4)] f2(1,5) e2 fresh(1) by (simp add: conn_Read_def)
  from h1 st1 f1(1) st2 res f2(1,4) st3 f3(1-3) n late rd3 rd2 show ?thesis by blast
qed

theorem reconnect_dial_succeeds_witness:
  "run [AExecute \<lparr>ShutDown = False, Canceled = False\<rparr> 0
          (Decoded \<lparr>PortNumber = ''8080'', Type = LocalPortForwarding\<rparr>) None,
        APump (ReadErr EOF) None] init = Some pending \<and>
   handler pending = HIdle \<and> reconnectToPort (plugin pending) \<and>
   tcpConn (plugin pending) \<noteq> None \<and>
   PayloadType \<lparr>PayloadType = Output, SequenceNumber = 1, Payload = [7]\<rparr> = Output \<and>
   (\<exists>s1 s2 s3.
     step (AMessage \<lparr>PayloadType = Output, SequenceNumber = 1, Payload = [7]\<rparr> None None) pending =
       Some s1 \<and>
     step ARendezvous s1 = Some s2 \<and>
     pump s2 = PReading \<and>
     tcpConn (plugin s2) = Some 1 \<and>
     step (AHandlerResume None) s2 = Some s3 \<and>
     \<not> reconnectToPort (plugin s3) \<and>
     1 \<notin> closed s3 \<and>
     (\<exists>rest. step (APump (ReadOk [9]) None) s3 = Some (writePump (ReadOk [9]) None s3) \<and>
        calls (writePump (ReadOk [9]) None s3) = calls s3 @ ConnRead 1 # rest))"
proof -
  have h: "handler pending = HIdle" "reconnectToPort (plugin pending)"
    "tcpConn (plugin pending) \<noteq> None"
    "PayloadType \<lparr>PayloadType = Output, SequenceNumber = 1, Payload = [7]\<rparr> = Output"
    by (simp_all add: pending_fields)
  have n: "nextConn pending = 1" by (simp add: pending_fields)
  from reconnect_dial_succeeds [OF run_pending h, of None]
  have "\<exists>s1 s2 s3.
     step (AMessage \<lparr>PayloadType = Output, SequenceNumber = 1, Payload = [7]\<rparr> None None) pending =
       Some s1 \<and>
     step ARendezvous s1 = Some s2 \<and>
     pump s2 = PReading \<and>
     tcpConn (plugin s2) = Some 1 \<and>
     step (AHandlerResume None) s2 = Some s3 \<and>
     \<not> reconnectToPort (plugin s3) \<and>
     1 \<notin> closed s3 \<and>
     (\<exists>rest. step (APump (ReadOk [9]) None) s3 = Some (writePump (ReadOk [9]) None s3) \<and>
        calls (writePump (ReadOk [9]) None s3) = calls s3 @ ConnRead 1 # rest)"
    unfolding n by blast
  with run_pending h show ?thesis by blast
qed

subsection \<open>C6: reconnection, the dial fails\<close>

text \<open>
  C6. In a reachable state with \<open>reconnectToPort\<close> set, a handle held and no handler call
  in flight, a data message whose dial fails goes as follows: the handler blocks in the send
  of line 204 with the dial error; the pump takes it, \<open>handlePortError\<close> returns
  \<open>ErrorExitCode\<close>, which is not zero, and the pump ends with it; the handler then
  returns the dial error, and \<open>reconnectToPort\<close> is still set.
\<close>

theorem reconnect_dial_fails:
  "run as init = Some s \<Longrightarrow> handler s = HIdle \<Longrightarrow> reconnectToPort (plugin s) \<Longrightarrow>
   tcpConn (plugin s) \<noteq> None \<Longrightarrow> PayloadType m = Output \<Longrightarrow>
   \<exists>s1 s2 s3.
     InputStreamMessageHandler m (Some e) w s = (Blocked, s1) \<and>
     step (AMessage m (Some e) w) s = Some s1 \<and>
     handler s1 = HSending (Some (UnableToConnect e)) m \<and>
     step ARendezvous s1 = Some s2 \<and>
     handlePortError_end (Some (UnableToConnect e)) = ErrorExitCode \<and>
     pump s2 = PFinished ErrorExitCode \<and>
     ErrorExitCode \<noteq> 0 \<and>
     InputStreamMessageHandler_resume w s2 = (Returned (Some (UnableToConnect e)), s3) \<and>
     step (AHandlerResume w) s2 = Some s3 \<and>
     reconnectToPort (plugin s3) \<and>
     pump s3 = PFinished ErrorExitCode"
proof -
  assume r: "run as init = Some s" and i: "handler s = HIdle" and rp: "reconnectToPort (plugin s)"
    and t: "tcpConn (plugin s) \<noteq> None" and o: "PayloadType m = Output"
  from t obtain c where c: "tcpConn (plugin s) = Some c" by auto
  from r i rp c have p: "pump s = PAwait" and e: "\<not> exited s"
    by (rule reachable_pending)+
  define s1 where "s1 = snd (InputStreamMessageHandler m (Some e) w s)"
  define s2 where
    "s2 = writePump_resume (Some (UnableToConnect e)) (s1\<lparr>handler := HSent (Some (UnableToConnect e)) m\<rparr>)"
  define s3 where "s3 = snd (InputStreamMessageHandler_resume w s2)"
  have h1: "InputStreamMessageHandler m (Some e) w s = (Blocked, s1)"
    using rp o c by (simp add: s1_def InputStreamMessageHandler_def startTCPConn_def Let_def)
  have f1: "handler s1 = HSending (Some (UnableToConnect e)) m" "pump s1 = PAwait"
    "life s1 = life s" "reconnectToPort (plugin s1)"
    using rp o c p
    by (simp_all add: s1_def InputStreamMessageHandler_def startTCPConn_def Let_def)
  have e1: "\<not> exited s1" using e f1(3) by (simp add: exited_def)
  have st1: "step (AMessage m (Some e) w) s = Some s1"
    using i e by (simp add: s1_def)
  have st2: "step ARendezvous s1 = Some s2"
    using f1 e1 by (simp add: rendezvous_def s2_def)
  have res: "handlePortError_end (Some (UnableToConnect e)) = ErrorExitCode"
    by (simp add: handlePortError_end_def)
  have n: "ErrorExitCode \<noteq> 0" "ErrorExitCode \<noteq> ResumeReadExitCode"
    by (simp_all add: ErrorExitCode_def ResumeReadExitCode_def)
  have f2: "pump s2 = PFinished ErrorExitCode" "handler s2 = HSent (Some (UnableToConnect e)) m"
    "life s2 = life s" "reconnectToPort (plugin s2)"
    using f1 n by (simp_all add: s2_def writePump_resume_def res pump_exit_def)
  have e2: "\<not> exited s2" using e f2(3) by (simp add: exited_def)
  have h3: "InputStreamMessageHandler_resume w s2 = (Returned (Some (UnableToConnect e)), s3)"
    using f2 by (simp add: s3_def InputStreamMessageHandler_resume_def)
  have st3: "step (AHandlerResume w) s2 = Some s3"
    using f2 e2 by (simp add: s3_def)
  have f3: "reconnectToPort (plugin s3)" "pump s3 = PFinished ErrorExitCode"
    using f2 by (simp_all add: s3_def InputStreamMessageHandler_resume_def)
  from h1 st1 f1(1) st2 res f2(1) n(1) h3 st3 f3 show ?thesis by blast
qed

theorem reconnect_dial_fails_witness:
  "run [AExecute \<lparr>ShutDown = False, Canceled = False\<rparr> 0
          (Decoded \<lparr>PortNumber = ''8080'', Type = LocalPortForwarding\<rparr>) None,
        APump (ReadErr EOF) None] init = Some pending \<and>
   handler pending = HIdle \<and> reconnectToPort (plugin pending) \<and>
   tcpConn (plugin pending) \<noteq> None \<and>
   PayloadType \<lparr>PayloadType = Output, SequenceNumber = 1, Payload = [7]\<rparr> = Output \<and>
   (\<exists>s1 s2 s3.
     step (AMessage \<lparr>PayloadType = Output, SequenceNumber = 1, Payload = [7]\<rparr>
       (Some (NetError ''connection refused'')) None) pending = Some s1 \<and>
     step ARendezvous s1 = Some s2 \<and>
     pump s2 = PFinished 1 \<and>
     InputStreamMessageHandler_resume None s2 =
       (Returned (Some (UnableToConnect (NetError ''connection refused''))), s3) \<and>
     reconnectToPort (plugin s3))"
proof -
  have h: "handler pending = HIdle" "reconnectToPort (plugin pending)"
    "tcpConn (plugin pending) \<noteq> None"
    "PayloadType \<lparr>PayloadType = Output, SequenceNumber = 1, Payload = [7]\<rparr> = Output"
    by (simp_all add: pending_fields)
  have n: "ErrorExitCode = 1" by (simp add: ErrorExitCode_def)
  from reconnect_dial_fails [OF run_pending h, of "NetError ''connection refused''" None]
  have "\<exists>s1 s2 s3.
     step (AMessage \<lparr>PayloadType = Output, SequenceNumber = 1, Payload = [7]\<rparr>
       (Some (NetError ''connection refused'')) None) pending = Some s1 \<and>
     step ARendezvous s1 = Some s2 \<and>
     pump s2 = PFinished 1 \<and>
     InputStreamMessageHandler_resume None s2 =
       (Returned (Some (UnableToConnect (NetError ''connection refused''))), s3) \<and>
     reconnectToPort (plugin s3)"
    unfolding n by blast
  with run_pending h show ?thesis by blast
qed

subsection \<open>C7: read errors outside local port forwarding\<close>

text \<open>
  C7. With a forwarding type other than \<open>LocalPortForwarding\<close>, the empty type among
  them, \<open>handleTCPReadError\<close> answers \<open>io.EOF\<close> with \<open>SuccessExitCode\<close> and every
  other read error with \<open>ErrorExitCode\<close>; the pump ends with that code, and when the
  \<open>select\<close> takes it the session ends with exit code 0 and status success, respectively
  exit code 1 and status failed.
\<close>

theorem service_forward_read_error:
  "portType (plugin s) \<noteq> LocalPortForwarding \<Longrightarrow> tcpConn (plugin s) = Some c \<Longrightarrow>
   conn_Read c r s = ReadErr err \<Longrightarrow> pump s = PReading \<Longrightarrow> life s = LRunning \<Longrightarrow>
   handleTCPReadError err s = (Some (if err = EOF then SuccessExitCode else ErrorExitCode), s) \<and>
   pump (writePump r sent s) = PFinished (if err = EOF then SuccessExitCode else ErrorExitCode) \<and>
   run [APump r sent, ASelect (Done (if err = EOF then SuccessExitCode else ErrorExitCode))] s =
     Some (execute_select (Done (if err = EOF then SuccessExitCode else ErrorExitCode))
       (writePump r sent s)) \<and>
   out (execute_select (Done (if err = EOF then SuccessExitCode else ErrorExitCode))
       (writePump r sent s)) =
     out s @ (if err = EOF then [SetExitCode 0, SetStatus ResultStatusSuccess]
              else [SetExitCode 1, SetStatus ResultStatusFailed])"
  by (simp add: handleTCPReadError_def handleSSHDPortError_def writePump_def pump_exit_def
      SuccessExitCode_def ErrorExitCode_def ResumeReadExitCode_def Let_def exited_def
      select_enabled_def execute_select_def)

theorem service_forward_read_error_witness:
  "portType (plugin (running [])) \<noteq> LocalPortForwarding \<and>
   tcpConn (plugin (running [])) = Some 0 \<and>
   conn_Read 0 (ReadErr EOF) (running []) = ReadErr EOF \<and>
   pump (running []) = PReading \<and> life (running []) = LRunning \<and>
   handleTCPReadError EOF (running []) = (Some 0, running []) \<and>
   pump (writePump (ReadErr EOF) None (running [])) = PFinished 0 \<and>
   out (execute_select (Done 0) (writePump (ReadErr EOF) None (running []))) =
     [SetExitCode 0, SetStatus ResultStatusSuccess]"
proof -
  have h: "portType (plugin (running [])) \<noteq> LocalPortForwarding"
    "tcpConn (plugin (running [])) = Some 0"
    "conn_Read 0 (ReadErr EOF) (running []) = ReadErr EOF"
    "pump (running []) = PReading" "life (running []) = LRunning"
    by (simp_all add: running_fields LocalPortForwarding_def conn_Read_def)
  show ?thesis
    using h service_forward_read_error [OF h, of None]
    by (simp add: SuccessExitCode_def running_fields)
qed

subsection \<open>C8: a message while no connection is held\<close>

text \<open>
  C8. While the plugin holds no connection handle, \<open>InputStreamMessageHandler\<close> returns
  no error for every message, of any payload type, and leaves the whole session as it was.
\<close>

theorem handler_no_connection:
  "tcpConn (plugin s) = None \<Longrightarrow> InputStreamMessageHandler m dial w s = (Returned None, s)"
  by (simp add: InputStreamMessageHandler_def)

theorem handler_no_connection_witness:
  "tcpConn (plugin init) = None \<and>
   InputStreamMessageHandler \<lparr>PayloadType = Output, SequenceNumber = 5, Payload = [1, 2]\<rparr>
     None None init = (Returned None, init)"
  using handler_no_connection [of init] by (simp add: init_def NewPlugin_def)

subsection \<open>C9: the parameters\<close>

text \<open>
  C9. \<open>initializeParameters\<close> succeeds for every configuration that decodes to a port
  number that is not empty, whatever the type, and stores both; for a configuration that
  does not decode, or decodes to an empty port number, it returns an error and leaves the
  session as it was.
\<close>

theorem initializeParameters_result:
  "(PortNumber pp \<noteq> [] \<longrightarrow>
      initializeParameters (Decoded pp) s =
        (Normal None, s\<lparr>plugin := (plugin s)\<lparr>portNumber := PortNumber pp, portType := Type pp\<rparr>\<rparr>)) \<and>
   (PortNumber pp = [] \<longrightarrow>
      initializeParameters (Decoded pp) s = (Normal (Some PortNumberEmpty), s)) \<and>
   initializeParameters (DecodeFailed e) s = (Normal (Some (UnableToRemarshal e)), s)"
  by (simp add: initializeParameters_def)

theorem initializeParameters_result_witness:
  "PortNumber \<lparr>PortNumber = ''22'', Type = ''bogus''\<rparr> \<noteq> [] \<and>
   initializeParameters (Decoded \<lparr>PortNumber = ''22'', Type = ''bogus''\<rparr>) init =
     (Normal None, init\<lparr>plugin := NewPlugin\<lparr>portNumber := ''22'', portType := ''bogus''\<rparr>\<rparr>) \<and>
   PortNumber \<lparr>PortNumber = [], Type = LocalPortForwarding\<rparr> = [] \<and>
   initializeParameters (Decoded \<lparr>PortNumber = [], Type = LocalPortForwarding\<rparr>) init =
     (Normal (Some PortNumberEmpty), init) \<and>
   initializeParameters (DecodeFailed (NetError ''json'')) init =
     (Normal (Some (UnableToRemarshal (NetError ''json''))), init)"
  using initializeParameters_result [of "\<lparr>PortNumber = ''22'', Type = ''bogus''\<rparr>" init "NetError ''json''"]
    initializeParameters_result [of "\<lparr>PortNumber = [], Type = LocalPortForwarding\<rparr>" init "NetError ''json''"]
  by (simp add: init_def)

subsection \<open>C10: the cancel flag is set when \<open>Execute\<close> is called\<close>

text \<open>
  C10. When the cancel flag reports shutdown, or else cancellation, at the call of
  \<open>Execute\<close>, the plugin stores the data channel, marks the output as shut down,
  respectively as cancelled, and returns. Nothing else of the session changes: the
  parameters are not read, no call goes to the network and the pump is not started.
\<close>

theorem Execute_flag_set:
  "ShutDown cancelFlag \<or> Canceled cancelFlag \<Longrightarrow>
   Execute cancelFlag dc properties dial s =
     s\<lparr>plugin := (plugin s)\<lparr>dataChannel := Some dc\<rparr>,
       out := out s @ [if ShutDown cancelFlag then MarkAsShutdown else MarkAsCancelled],
       life := LReturned\<rparr>"
  by (auto simp add: Execute_def Let_def)

theorem Execute_flag_set_witness:
  "(ShutDown \<lparr>ShutDown = False, Canceled = True\<rparr> \<or> Canceled \<lparr>ShutDown = False, Canceled = True\<rparr>) \<and>
   Execute \<lparr>ShutDown = False, Canceled = True\<rparr> 3 (Decoded \<lparr>PortNumber = ''22'', Type = []\<rparr>) None init =
     init\<lparr>plugin := NewPlugin\<lparr>dataChannel := Some 3\<rparr>, out := [MarkAsCancelled], life := LReturned\<rparr>"
  using Execute_flag_set [of "\<lparr>ShutDown = False, Canceled = True\<rparr>" 3
      "Decoded \<lparr>PortNumber = ''22'', Type = []\<rparr>" None init]
  by (simp add: init_def)

end
